theory Spec2Isabelle
  imports Main
begin

section \<open>Python values and exceptions\<close>

text \<open>
  The module \<^verbatim>\<open>cnaas_nms/tools/security.py\<close> handles JSON documents (token headers,
  decoded claims, the discovery document, the key set, the userinfo answer) as plain
  Python values. They are modelled by one datatype; \<open>JNull\<close> is Python's \<^verbatim>\<open>None\<close>, an
  object is an association list whose first binding of a name is the member's value.
  JSON booleans and floating point numbers are left out.
\<close>

datatype json =
    JNull
  | JInt int
  | JStr string
  | JArr "json list"
  | JObj "(string \<times> json) list"

text \<open>
  Exceptions of \<^verbatim>\<open>requests.exceptions\<close> and of \<^verbatim>\<open>jose.exceptions\<close> (the libraries define
  \<^verbatim>\<open>JWTClaimsError\<close> and \<^verbatim>\<open>ExpiredSignatureError\<close> as subclasses of \<^verbatim>\<open>JWTError\<close>), and the
  exceptions that leave the functions of the module. The first four constructors of
  \<open>exc\<close> are the classes of \<^verbatim>\<open>jwt.exceptions\<close> that the module raises itself;
  \<open>ConnectionError\<close> is the built-in class, \<open>Requests Req_ConnectionError\<close> is the one
  of the HTTP library. A constructor is the class of the object raised; the module has no
  \<^verbatim>\<open>except\<close> clause for a class of \<^verbatim>\<open>jwt.exceptions\<close>, so their subclass relation plays
  no part inside the module and is given apart, by \<open>is_InvalidTokenError\<close>.
\<close>

datatype req_exc =
    Req_HTTPError
  | Req_ConnectionError
  | Req_JSONDecodeError
  | Req_RequestException

datatype jose_exc =
    Jose_JWSError
  | Jose_JWTError
  | Jose_JWTClaimsError
  | Jose_ExpiredSignatureError
  | Jose_JWKError
  | Jose_JOSEError

datatype exc =
    InvalidTokenError
  | ExpiredSignatureError
  | InvalidKeyError
  | InvalidAudienceError
  | ConnectionError
  | KeyError
  | TypeError
  | ValueError
  | JSONDecodeError
  | AttributeError
  | RedisError
  | Requests req_exc
  | Jose jose_exc


fun is_JWTError :: "jose_exc \<Rightarrow> bool" where
  "is_JWTError Jose_JWTError = True"
| "is_JWTError Jose_JWTClaimsError = True"
| "is_JWTError Jose_ExpiredSignatureError = True"
| "is_JWTError _ = False"

subsection \<open>Operations of the language on these values\<close>

text \<open>\<^verbatim>\<open>v[name]\<close>: a missing member raises KeyError, a value that is no object TypeError.\<close>

fun getitem :: "json \<Rightarrow> string \<Rightarrow> exc + json" where
  "getitem (JObj kvs) n = (case map_of kvs n of None \<Rightarrow> Inl KeyError | Some v \<Rightarrow> Inr v)"
| "getitem _ n = Inl TypeError"

text \<open>\<^verbatim>\<open>d.get(name)\<close> on a dictionary.\<close>

definition dict_get :: "(string \<times> json) list \<Rightarrow> string \<Rightarrow> json" where
  "dict_get kvs n = (case map_of kvs n of None \<Rightarrow> JNull | Some v \<Rightarrow> v)"

fun starts_with :: "string \<Rightarrow> string \<Rightarrow> bool" where
  "starts_with [] s = True"
| "starts_with (x # xs) [] = False"
| "starts_with (x # xs) (y # ys) = (x = y \<and> starts_with xs ys)"

fun substring :: "string \<Rightarrow> string \<Rightarrow> bool" where
  "substring n [] = (n = [])"
| "substring n (c # cs) = (starts_with n (c # cs) \<or> substring n cs)"

text \<open>\<^verbatim>\<open>name in v\<close>: membership of a key, of an element, or of a substring.\<close>

fun contains :: "string \<Rightarrow> json \<Rightarrow> exc + bool" where
  "contains n (JObj kvs) = Inr (n \<in> set (map fst kvs))"
| "contains n (JArr xs) = Inr (JStr n \<in> set xs)"
| "contains n (JStr s) = Inr (substring n s)"
| "contains n _ = Inl TypeError"

text \<open>\<^verbatim>\<open>for k in v\<close>: the elements of a list, the keys of a dictionary, the characters of a string.\<close>

fun py_iter :: "json \<Rightarrow> exc + json list" where
  "py_iter (JArr xs) = Inr xs"
| "py_iter (JObj kvs) = Inr (map (\<lambda>kv. JStr (fst kv)) kvs)"
| "py_iter (JStr s) = Inr (map (\<lambda>c. JStr [c]) s)"
| "py_iter _ = Inl TypeError"

fun py_len :: "json \<Rightarrow> exc + nat" where
  "py_len (JArr xs) = Inr (length xs)"
| "py_len (JObj kvs) = Inr (length kvs)"
| "py_len (JStr s) = Inr (length s)"
| "py_len _ = Inl TypeError"

text \<open>Truth value of a value in a condition (\<^verbatim>\<open>if keys:\<close>, \<^verbatim>\<open>not permissions_rules\<close>).\<close>

fun truthy :: "json \<Rightarrow> bool" where
  "truthy JNull = False"
| "truthy (JInt n) = (n \<noteq> 0)"
| "truthy (JStr s) = (s \<noteq> [])"
| "truthy (JArr xs) = (xs \<noteq> [])"
| "truthy (JObj kvs) = (kvs \<noteq> [])"

text \<open>
  \<^verbatim>\<open>int(v)\<close>: an integer is itself; a string is stripped of the blanks around it and
  read as a decimal numeral with an optional sign, single underscores allowed between
  digits (characters beyond ASCII are not modelled); anything else raises TypeError.
\<close>

definition is_space :: "char \<Rightarrow> bool" where
  "is_space c =
     (let n = (of_char c :: nat) in (9 \<le> n \<and> n \<le> 13) \<or> (28 \<le> n \<and> n \<le> 32))"

definition is_digit :: "char \<Rightarrow> bool" where
  "is_digit c = (let n = (of_char c :: nat) in 48 \<le> n \<and> n \<le> 57)"

definition strip :: "string \<Rightarrow> string" where
  "strip s = rev (dropWhile is_space (rev (dropWhile is_space s)))"

fun digits_val :: "string \<Rightarrow> nat \<Rightarrow> nat option" where
  "digits_val [] acc = None"
| "digits_val (c # cs) acc =
     (if is_digit c then
        (case cs of
           [] \<Rightarrow> Some (10 * acc + (of_char c - 48))
         | u # us \<Rightarrow>
             if u = CHR ''_'' then digits_val us (10 * acc + (of_char c - 48))
             else digits_val cs (10 * acc + (of_char c - 48)))
      else None)"

definition parse_int :: "string \<Rightarrow> int option" where
  "parse_int s =
     (case strip s of
        [] \<Rightarrow> None
      | c # cs \<Rightarrow>
          if c = CHR ''-'' then map_option (\<lambda>n. - int n) (digits_val cs 0)
          else if c = CHR ''+'' then map_option int (digits_val cs 0)
          else map_option int (digits_val (c # cs) 0))"

fun py_int :: "json \<Rightarrow> exc + int" where
  "py_int (JInt n) = Inr n"
| "py_int (JStr s) = (case parse_int s of None \<Rightarrow> Inl ValueError | Some n \<Rightarrow> Inr n)"
| "py_int _ = Inl TypeError"

section \<open>Settings, tokens, the outside world\<close>

text \<open>The options of \<^verbatim>\<open>api_settings\<close> and \<^verbatim>\<open>auth_settings\<close> that the module reads.\<close>

record api_settings =
  JWT_ENABLED :: bool

record auth_settings =
  OIDC_ENABLED :: bool
  OIDC_CONF_WELL_KNOWN_URL :: string
  AUDIENCE :: string
  VERIFY_AUDIENCE :: bool
  PERMISSIONS_DISABLED :: bool
  PERMISSIONS :: json

text \<open>
  Modelled from the spec: the class \<^verbatim>\<open>Token\<close> of \<^verbatim>\<open>cnaas_nms.tools.rbac.token\<close> is not
  among the sources. The spec gives it the raw string and an optional claims map, absent
  when the string is no structured token; \<^verbatim>\<open>Token(token_string, None)\<close> therefore
  holds \<open>JNull\<close> as its \<open>decoded_token\<close>.
\<close>

record token =
  token_string :: string
  decoded_token :: json

text \<open>What \<^verbatim>\<open>authenticate_token\<close> returns: the string \<^verbatim>\<open>"no-token-needed"\<close> or a token.\<close>

datatype auth_result = NoTokenNeeded | Tok token

record response =
  status_code :: nat
  resp_text :: string

text \<open>
  Calls that leave the process, in the order they are made. \<open>EvRefresh\<close> and \<open>EvLookup\<close>
  are bookkeeping: one is recorded at each entry of \<^verbatim>\<open>get_keys\<close>, the other at each
  evaluation of the list comprehension that searches the key set.
\<close>

datatype event =
    EvRefresh
  | EvLookup
  | EvGet json
  | EvPost json string
  | EvHget json
  | EvHsetnx json string
  | EvExpireat int

text \<open>
  The mutable state: the key set of the process-wide \<^verbatim>\<open>JWKSStore\<close>, the Redis hash
  \<^verbatim>\<open>oauth_userinfo\<close> with the expiry instant of the whole hash, and the calls made so far.

  Modelled from the spec: the metaclass \<^verbatim>\<open>SingletonType\<close> is not among the sources; the
  spec describes a process-wide shared key registry, so every \<^verbatim>\<open>JWKSStore()\<close> in the
  module denotes the one store held in \<open>jwks_keys\<close>.
\<close>

record state =
  jwks_keys :: json
  userinfo_cache :: "(string \<times> string) list"
  cache_expiry :: "int option"
  trace :: "event list"

text \<open>
  The collaborators as parameters: the HTTP session, the JSON parser, the two functions of
  \<^verbatim>\<open>jose.jwt\<close>, the clock, the availability of Redis for each command, and the functions
  of \<^verbatim>\<open>cnaas_nms.tools.rbac.rbac\<close>, \<^verbatim>\<open>flask_jwt_extended\<close> and \<^verbatim>\<open>authlib\<close> that are
  imported but not part of the sources.
\<close>

record env =
  api :: api_settings
  auth :: auth_settings
  http_get :: "json \<Rightarrow> req_exc + response"
  http_post :: "json \<Rightarrow> string \<Rightarrow> req_exc + response"
  json_loads :: "string \<Rightarrow> json option"
  get_unverified_header :: "string \<Rightarrow> jose_exc + (string \<times> json) list"
  jwt_decode :: "string \<Rightarrow> json \<Rightarrow> json \<Rightarrow> string \<Rightarrow> bool \<Rightarrow> jose_exc + json"
  now :: int
  redis_session_fails :: bool
  hget_fails :: bool
  hsetnx_fails :: bool
  expireat_fails :: bool
  get_permissions_user :: "json \<Rightarrow> json \<Rightarrow> json list"
  check_if_api_call_is_permitted :: "string \<times> string \<Rightarrow> json list \<Rightarrow> bool"
  get_jwt_identity_orig :: json
  current_token :: token

section \<open>Statements with effects\<close>

text \<open>
  A statement takes the state and gives a value or an exception together with the state it
  leaves behind; the effects made before an exception stay.
\<close>

type_synonym 'a prog = "state \<Rightarrow> (exc + 'a) \<times> state"

definition ret :: "'a \<Rightarrow> 'a prog" where
  "ret x = (\<lambda>s. (Inr x, s))"

definition throw :: "exc \<Rightarrow> 'a prog" where
  "throw e = (\<lambda>s. (Inl e, s))"

definition lift :: "exc + 'a \<Rightarrow> 'a prog" where
  "lift r = (\<lambda>s. (r, s))"

definition bnd :: "'a prog \<Rightarrow> ('a \<Rightarrow> 'b prog) \<Rightarrow> 'b prog" where
  "bnd m f = (\<lambda>s. case m s of (Inl e, s') \<Rightarrow> (Inl e, s') | (Inr x, s') \<Rightarrow> f x s')"

text \<open>\<^verbatim>\<open>try: m  except ...: h\<close>, the handler deciding by the class of the exception.\<close>

definition catch :: "'a prog \<Rightarrow> (exc \<Rightarrow> 'a prog) \<Rightarrow> 'a prog" where
  "catch m h = (\<lambda>s. case m s of (Inl e, s') \<Rightarrow> h e s' | (Inr x, s') \<Rightarrow> (Inr x, s'))"

definition log :: "event \<Rightarrow> unit prog" where
  "log ev = (\<lambda>s. (Inr (), s\<lparr>trace := trace s @ [ev]\<rparr>))"

subsection \<open>HTTP\<close>

definition s_get :: "env \<Rightarrow> json \<Rightarrow> response prog" where
  "s_get env url =
     bnd (log (EvGet url)) (\<lambda>_.
     lift (case http_get env url of Inl e \<Rightarrow> Inl (Requests e) | Inr r \<Rightarrow> Inr r))"

definition s_post :: "env \<Rightarrow> json \<Rightarrow> string \<Rightarrow> response prog" where
  "s_post env url bearer =
     bnd (log (EvPost url bearer)) (\<lambda>_.
     lift (case http_post env url bearer of Inl e \<Rightarrow> Inl (Requests e) | Inr r \<Rightarrow> Inr r))"

definition raise_for_status :: "response \<Rightarrow> exc + unit" where
  "raise_for_status r =
     (if 400 \<le> status_code r \<and> status_code r < 600 then Inl (Requests Req_HTTPError) else Inr ())"

text \<open>\<^verbatim>\<open>r.json()\<close> of a response and \<^verbatim>\<open>json.loads\<close> of the standard library.\<close>

definition resp_json :: "env \<Rightarrow> response \<Rightarrow> exc + json" where
  "resp_json env r =
     (case json_loads env (resp_text r) of None \<Rightarrow> Inl (Requests Req_JSONDecodeError) | Some v \<Rightarrow> Inr v)"

definition loads :: "env \<Rightarrow> string \<Rightarrow> exc + json" where
  "loads env s = (case json_loads env s of None \<Rightarrow> Inl JSONDecodeError | Some v \<Rightarrow> Inr v)"

subsection \<open>Redis\<close>

text \<open>
  The commands on the hash \<^verbatim>\<open>oauth_userinfo\<close>, as the Redis documentation gives them.
  A hash whose expiry instant has passed no longer exists; each command first removes it.
  The client sends a string field as it is and an integer field as its decimal numeral,
  and refuses any other field with a \<^verbatim>\<open>DataError\<close>, a subclass of \<^verbatim>\<open>RedisError\<close>. \<^verbatim>\<open>HSETNX\<close> sets a field only when it is not there, and a
  hash it creates has no expiry. \<^verbatim>\<open>EXPIREAT ... LT\<close> changes the expiry only of an existing
  key and only when the new instant is earlier than the current one, a key without expiry
  counting as one that never expires.
\<close>

function nat_digits :: "nat \<Rightarrow> string" where
  "nat_digits n =
     (if n < 10 then [char_of (48 + n)] else nat_digits (n div 10) @ [char_of (48 + n mod 10)])"
  by pat_completeness auto
termination
  by (relation "measure id") auto

definition int_repr :: "int \<Rightarrow> string" where
  "int_repr i = (if i < 0 then CHR ''-'' # nat_digits (nat (- i)) else nat_digits (nat i))"

fun redis_field :: "json \<Rightarrow> string option" where
  "redis_field (JStr s) = Some s"
| "redis_field (JInt n) = Some (int_repr n)"
| "redis_field _ = None"

definition purge :: "int \<Rightarrow> state \<Rightarrow> state" where
  "purge t s =
     (case cache_expiry s of
        None \<Rightarrow> s
      | Some e \<Rightarrow> if e \<le> t then s\<lparr>userinfo_cache := [], cache_expiry := None\<rparr> else s)"

definition redis_session :: "env \<Rightarrow> unit prog" where
  "redis_session env = (if redis_session_fails env then throw RedisError else ret ())"

definition hget :: "env \<Rightarrow> json \<Rightarrow> (string option) prog" where
  "hget env field =
     bnd (log (EvHget field)) (\<lambda>_.
     if hget_fails env then throw RedisError
     else
       (case redis_field field of
          None \<Rightarrow> throw RedisError
        | Some f \<Rightarrow>
            (\<lambda>s. let s' = purge (now env) s in (Inr (map_of (userinfo_cache s') f), s'))))"

definition hsetnx :: "env \<Rightarrow> json \<Rightarrow> string \<Rightarrow> unit prog" where
  "hsetnx env field v =
     bnd (log (EvHsetnx field v)) (\<lambda>_.
     if hsetnx_fails env then throw RedisError
     else
       (case redis_field field of
          None \<Rightarrow> throw RedisError
        | Some f \<Rightarrow>
            (\<lambda>s. let s' = purge (now env) s
                 in (Inr (),
                     if map_of (userinfo_cache s') f = None
                     then s'\<lparr>userinfo_cache := (f, v) # userinfo_cache s'\<rparr> else s'))))"

definition expireat_lt :: "env \<Rightarrow> int \<Rightarrow> unit prog" where
  "expireat_lt env when =
     bnd (log (EvExpireat when)) (\<lambda>_.
     if expireat_fails env then throw RedisError
     else (\<lambda>s. let s' = purge (now env) s
               in (Inr (),
                   if userinfo_cache s' = [] then s'
                   else (case cache_expiry s' of
                           None \<Rightarrow> s'\<lparr>cache_expiry := Some when\<rparr>
                         | Some cur \<Rightarrow> if when < cur then s'\<lparr>cache_expiry := Some when\<rparr> else s'))))"

section \<open>The key store\<close>

text \<open>\<^verbatim>\<open>JWKSStore.__init__\<close>: the given key set when it is not empty, else an empty dictionary.\<close>

definition JWKSStore_init :: "json \<Rightarrow> json" where
  "JWKSStore_init keys = (if truthy keys then keys else JObj [])"

definition read_keys :: "json prog" where
  "read_keys = (\<lambda>s. (Inr (jwks_keys s), s))"

definition write_keys :: "json \<Rightarrow> unit prog" where
  "write_keys ks = (\<lambda>s. (Inr (), s\<lparr>jwks_keys := ks\<rparr>))"

text \<open>
  \<^verbatim>\<open>get_keys\<close>: the discovery document, its \<^verbatim>\<open>jwks_uri\<close>, the key set, and the assignment
  of its \<^verbatim>\<open>keys\<close> member to the store as the last statement of the \<^verbatim>\<open>try\<close> block. There is
  no \<^verbatim>\<open>raise_for_status\<close> in this function. KeyError and the HTTPError of the HTTP library
  become InvalidKeyError; every other exception passes.
\<close>

definition get_keys_body :: "env \<Rightarrow> unit prog" where
  "get_keys_body env =
     bnd (s_get env (JStr (OIDC_CONF_WELL_KNOWN_URL (auth env)))) (\<lambda>metadata.
     bnd (lift (resp_json env metadata)) (\<lambda>mj.
     bnd (lift (getitem mj ''jwks_uri'')) (\<lambda>keys_endpoint.
     bnd (s_get env keys_endpoint) (\<lambda>response.
     bnd (lift (resp_json env response)) (\<lambda>rj.
     bnd (lift (getitem rj ''keys'')) (\<lambda>ks.
     write_keys ks))))))"

definition get_keys :: "env \<Rightarrow> unit prog" where
  "get_keys env =
     bnd (log EvRefresh) (\<lambda>_.
     catch (get_keys_body env)
       (\<lambda>e. if e = KeyError then throw InvalidKeyError
            else if e = Requests Req_HTTPError then throw InvalidKeyError
            else throw e))"

text \<open>\<^verbatim>\<open>[k for k in jwks_store.keys if k["kid"] == kid]\<close>: the first key without a \<^verbatim>\<open>kid\<close> ends it with KeyError.\<close>

fun filter_kid :: "json list \<Rightarrow> json \<Rightarrow> exc + json list" where
  "filter_kid [] kid = Inr []"
| "filter_kid (k # ks) kid =
     (case getitem k ''kid'' of
        Inl e \<Rightarrow> Inl e
      | Inr v \<Rightarrow> (case filter_kid ks kid of
                   Inl e \<Rightarrow> Inl e
                 | Inr r \<Rightarrow> Inr (if v = kid then k # r else r)))"

definition lookup_kid :: "json \<Rightarrow> json list prog" where
  "lookup_kid kid =
     bnd (log EvLookup) (\<lambda>_.
     bnd read_keys (\<lambda>keys.
     bnd (lift (py_iter keys)) (\<lambda>ks.
     lift (filter_kid ks kid))))"

text \<open>
  \<^verbatim>\<open>get_key\<close>: the first search is outside any \<^verbatim>\<open>try\<close>; after the refresh an empty key set
  raises InvalidKeyError, the second search turns KeyError into InvalidKeyError, and a
  second miss raises InvalidKeyError.
\<close>

definition get_key :: "env \<Rightarrow> json \<Rightarrow> json list prog" where
  "get_key env kid =
     bnd (lookup_kid kid) (\<lambda>key.
     if length key = 0 then
       bnd (get_keys env) (\<lambda>_.
       bnd read_keys (\<lambda>keys.
       bnd (lift (py_len keys)) (\<lambda>n.
       if n = 0 then throw InvalidKeyError
       else
         bnd (catch (lookup_kid kid)
                (\<lambda>e. if e = KeyError then throw InvalidKeyError else throw e)) (\<lambda>key'.
         if length key' = 0 then throw InvalidKeyError else ret key'))))
     else ret key)"

section \<open>Identity resolution\<close>

text \<open>
  The first \<^verbatim>\<open>try\<close> block of \<^verbatim>\<open>get_oauth_userinfo\<close>: the session is entered, then the
  argument \<^verbatim>\<open>token.decoded_token["sub"]\<close> is evaluated, then \<^verbatim>\<open>hget\<close> is called. The result
  \<open>Some v\<close> is the \<^verbatim>\<open>return\<close> inside the block, \<open>None\<close> falls through to the request. Only
  RedisError and KeyError are handled.
\<close>

definition cache_read :: "env \<Rightarrow> token \<Rightarrow> (json option) prog" where
  "cache_read env tok =
     catch
       (bnd (redis_session env) (\<lambda>_.
        bnd (lift (getitem (decoded_token tok) ''sub'')) (\<lambda>sub.
        bnd (hget env sub) (\<lambda>cached_userinfo.
        case cached_userinfo of
          None \<Rightarrow> ret None
        | Some c \<Rightarrow> if c \<noteq> [] then bnd (lift (loads env c)) (\<lambda>v. ret (Some v)) else ret None))))
       (\<lambda>e. if e = RedisError then ret None
            else if e = KeyError then ret None
            else throw e)"

text \<open>The second \<^verbatim>\<open>try\<close> block: the discovery document, with its status checked.\<close>

definition fetch_metadata :: "env \<Rightarrow> response prog" where
  "fetch_metadata env =
     catch
       (bnd (s_get env (JStr (OIDC_CONF_WELL_KNOWN_URL (auth env)))) (\<lambda>metadata.
        bnd (lift (raise_for_status metadata)) (\<lambda>_.
        ret metadata)))
       (\<lambda>e. if e = Requests Req_HTTPError then throw ConnectionError
            else if e = Requests Req_ConnectionError then throw ConnectionError
            else throw e)"

text \<open>
  The \<^verbatim>\<open>with redis_session()\<close> block of the third \<^verbatim>\<open>try\<close>: when the claims have an \<^verbatim>\<open>exp\<close>,
  the answer is stored under the subject unless the field exists, and the hash is set to
  expire at the token's expiry or one hour from now, whichever is sooner, with \<^verbatim>\<open>lt=True\<close>.
\<close>

definition cache_write :: "env \<Rightarrow> token \<Rightarrow> response \<Rightarrow> unit prog" where
  "cache_write env tok resp =
     bnd (redis_session env) (\<lambda>_.
     bnd (lift (contains ''exp'' (decoded_token tok))) (\<lambda>has_exp.
     if has_exp then
       bnd (lift (getitem (decoded_token tok) ''sub'')) (\<lambda>sub.
       bnd (hsetnx env sub (resp_text resp)) (\<lambda>_.
       bnd (lift (getitem (decoded_token tok) ''exp'')) (\<lambda>exp.
       bnd (lift (py_int exp)) (\<lambda>e.
       expireat_lt env (min e (now env + 3600))))))
     else ret ()))"

text \<open>
  The third \<^verbatim>\<open>try\<close> block. Its handlers for RedisError and KeyError log and go on to
  \<^verbatim>\<open>return resp.json()\<close>; the three statements before the \<^verbatim>\<open>with\<close> block raise exceptions
  of the HTTP library only, so these two handlers fire inside the \<^verbatim>\<open>with\<close> block, where
  \<open>resp\<close> is bound, and the model places them there. The handler for the JSONDecodeError
  of the HTTP library raises InvalidTokenError.

  The handler for HTTPError reads \<^verbatim>\<open>e.response.content\<close> (\<open>userinfo_error\<close>): a body that is
  no JSON or has no \<^verbatim>\<open>error_description\<close> gives InvalidTokenError; a body that is no object,
  or whose \<^verbatim>\<open>error_description\<close> is no string (it is appended to a string for the log),
  gives TypeError, which the inner handlers (JSONDecodeError and KeyError) let pass; a
  description that is a string gives InvalidTokenError. The HTTPError of
  \<^verbatim>\<open>raise_for_status\<close> carries the response, so the model applies the handler at that
  statement; an HTTPError raised by the request itself carries none, and the handler ends
  in AttributeError.
\<close>

definition userinfo_error :: "env \<Rightarrow> response \<Rightarrow> exc" where
  "userinfo_error env r =
     (case loads env (resp_text r) of
        Inl e \<Rightarrow> InvalidTokenError
      | Inr body \<Rightarrow>
          (case getitem body ''error_description'' of
             Inl e \<Rightarrow> if e = KeyError then InvalidTokenError else e
           | Inr d \<Rightarrow> (case d of JStr msg \<Rightarrow> InvalidTokenError | _ \<Rightarrow> TypeError)))"

definition fetch_userinfo :: "env \<Rightarrow> token \<Rightarrow> json \<Rightarrow> response prog" where
  "fetch_userinfo env tok user_info_endpoint =
     catch
       (bnd (s_post env user_info_endpoint (token_string tok)) (\<lambda>resp.
        bnd (catch (lift (raise_for_status resp))
               (\<lambda>e. if e = Requests Req_HTTPError then throw (userinfo_error env resp)
                    else throw e)) (\<lambda>_.
        bnd (lift (resp_json env resp)) (\<lambda>_.
        bnd (catch (cache_write env tok resp)
               (\<lambda>e. if e = RedisError then ret ()
                    else if e = KeyError then ret ()
                    else throw e)) (\<lambda>_.
        ret resp)))))
       (\<lambda>e. if e = Requests Req_HTTPError then throw AttributeError
            else if e = Requests Req_JSONDecodeError then throw InvalidTokenError
            else throw e)"

definition get_oauth_userinfo :: "env \<Rightarrow> token \<Rightarrow> json prog" where
  "get_oauth_userinfo env tok =
     (if \<not> OIDC_ENABLED (auth env) then ret JNull
      else
        bnd (cache_read env tok) (\<lambda>cached.
        case cached of
          Some v \<Rightarrow> ret v
        | None \<Rightarrow>
            bnd (fetch_metadata env) (\<lambda>metadata.
            bnd (lift (resp_json env metadata)) (\<lambda>mj.
            bnd (lift (getitem mj ''userinfo_endpoint'')) (\<lambda>user_info_endpoint.
            bnd (fetch_userinfo env tok user_info_endpoint) (\<lambda>resp.
            lift (resp_json env resp)))))))"

section \<open>The token validator\<close>

text \<open>
  \<^verbatim>\<open>authenticate_token\<close>. A header that raises JWSError is refused; one that raises
  JWTError makes \<^verbatim>\<open>Token(token_string, None)\<close> and asks for the user info. The key list
  found by \<^verbatim>\<open>get_key\<close> goes to \<^verbatim>\<open>jwt.decode\<close> with the algorithm of the header, the
  configured audience and the \<^verbatim>\<open>verify_aud\<close> option.
\<close>

definition authenticate_token :: "env \<Rightarrow> string \<Rightarrow> auth_result prog" where
  "authenticate_token env ts =
     (if \<not> OIDC_ENABLED (auth env) then ret NoTokenNeeded
      else
        case get_unverified_header env ts of
          Inl e \<Rightarrow>
            if e = Jose_JWSError then throw InvalidTokenError
            else if is_JWTError e then
              (let tok = \<lparr>token_string = ts, decoded_token = JNull\<rparr>
               in bnd (get_oauth_userinfo env tok) (\<lambda>_. ret (Tok tok)))
            else throw (Jose e)
        | Inr unverified_header \<Rightarrow>
            bnd (get_key env (dict_get unverified_header ''kid'')) (\<lambda>key.
            case jwt_decode env ts (JArr key) (dict_get unverified_header ''alg'')
                   (AUDIENCE (auth env)) (VERIFY_AUDIENCE (auth env)) of
              Inl e \<Rightarrow>
                if e = Jose_ExpiredSignatureError then throw ExpiredSignatureError
                else if e = Jose_JWKError then throw InvalidKeyError
                else if is_JWTError e then throw InvalidTokenError
                else throw (Jose e)
            | Inr decoded \<Rightarrow> ret (Tok \<lparr>token_string = ts, decoded_token = decoded\<rparr>)))"

text \<open>
  \<^verbatim>\<open>validate_token\<close>, with the scopes either \<^verbatim>\<open>None\<close> or a list of names and the request as
  its method and path. Each of the three refusals raises InvalidAudienceError.
\<close>

definition validate_token :: "env \<Rightarrow> token \<Rightarrow> string list option \<Rightarrow> string \<times> string \<Rightarrow> token prog" where
  "validate_token env tok scopes request =
     (if PERMISSIONS_DISABLED (auth env) then ret tok
      else if (case scopes of None \<Rightarrow> False | Some sc \<Rightarrow> ''always_permitted'' \<in> set sc) then ret tok
      else
        (let permissions_rules = PERMISSIONS (auth env)
         in if \<not> truthy permissions_rules then throw InvalidAudienceError
            else
              bnd (get_oauth_userinfo env tok) (\<lambda>user_info.
              let permissions = get_permissions_user env permissions_rules user_info
              in if length permissions = 0 then throw InvalidAudienceError
                 else if check_if_api_call_is_permitted env request permissions then ret tok
                 else throw InvalidAudienceError)))"

section \<open>Identities\<close>

definition get_jwt_identity :: "env \<Rightarrow> json" where
  "get_jwt_identity env =
     (if JWT_ENABLED (api env) then get_jwt_identity_orig env else JStr ''admin'')"

definition get_oauth_identity :: "env \<Rightarrow> json prog" where
  "get_oauth_identity env =
     (if \<not> OIDC_ENABLED (auth env) then ret (JStr ''Admin'')
      else
        bnd (get_oauth_userinfo env (current_token env)) (\<lambda>userinfo.
        bnd (lift (contains ''email'' userinfo)) (\<lambda>has_email.
        if \<not> has_email then throw KeyError
        else lift (getitem userinfo ''email''))))"

section \<open>Auxiliary notions and example data\<close>

text \<open>A statement that never raises InvalidAudienceError, whatever the state.\<close>

definition no_aud :: "'a prog \<Rightarrow> bool" where
  "no_aud m = (\<forall>s. fst (m s) \<noteq> Inl InvalidAudienceError)"

text \<open>
  An identity provider with a discovery document, a key set holding the keys \<open>k2\<close> and
  \<open>k3\<close>, and a userinfo endpoint; the texts of its answers stand for JSON documents, given
  their meaning by \<open>json_loads\<close>. The token \<open>jwt-k1\<close> has a header naming the key \<open>k1\<close>
  and decodes to the claims of \<open>alice\<close> under that key, unless the audience is verified
  and is not \<open>cnaas\<close>; every other string has no header that can be decoded.
\<close>

definition idp_well_known :: string where
  "idp_well_known = ''https://idp.example/.well-known/openid-configuration''"

definition key_k1 :: json where
  "key_k1 = JObj [(''kid'', JStr ''k1''), (''alg'', JStr ''RS256''), (''kty'', JStr ''RSA'')]"

definition key_k2 :: json where
  "key_k2 = JObj [(''kid'', JStr ''k2''), (''alg'', JStr ''RS256''), (''kty'', JStr ''RSA'')]"

definition key_k3 :: json where
  "key_k3 = JObj [(''kid'', JStr ''k3''), (''alg'', JStr ''RS256''), (''kty'', JStr ''RSA'')]"

definition claims_alice :: json where
  "claims_alice = JObj [(''sub'', JStr ''alice''), (''aud'', JStr ''cnaas''), (''exp'', JInt 5000)]"

definition userinfo_alice :: json where
  "userinfo_alice = JObj [(''sub'', JStr ''alice''), (''email'', JStr ''user@example.com'')]"

definition token_alice :: token where
  "token_alice = \<lparr>token_string = ''jwt-k1'', decoded_token = claims_alice\<rparr>"

definition example_auth :: auth_settings where
  "example_auth =
     \<lparr>OIDC_ENABLED = True, OIDC_CONF_WELL_KNOWN_URL = idp_well_known, AUDIENCE = ''cnaas'',
      VERIFY_AUDIENCE = True, PERMISSIONS_DISABLED = False, PERMISSIONS = JObj []\<rparr>"

definition example_env :: env where
  "example_env =
     \<lparr>api = \<lparr>JWT_ENABLED = False\<rparr>,
      auth = example_auth,
      http_get = (\<lambda>url.
        if url = JStr idp_well_known then Inr \<lparr>status_code = 200, resp_text = ''discovery''\<rparr>
        else if url = JStr ''https://idp.example/jwks'' then Inr \<lparr>status_code = 200, resp_text = ''jwks''\<rparr>
        else Inl Req_ConnectionError),
      http_post = (\<lambda>url bearer.
        if url = JStr ''https://idp.example/userinfo'' then Inr \<lparr>status_code = 200, resp_text = ''userinfo''\<rparr>
        else Inl Req_ConnectionError),
      json_loads = (\<lambda>s.
        if s = ''discovery'' then
          Some (JObj [(''jwks_uri'', JStr ''https://idp.example/jwks''),
                      (''userinfo_endpoint'', JStr ''https://idp.example/userinfo'')])
        else if s = ''jwks'' then Some (JObj [(''keys'', JArr [key_k2, key_k3])])
        else if s = ''userinfo'' then Some userinfo_alice
        else None),
      get_unverified_header = (\<lambda>ts.
        if ts = ''jwt-k1'' then Inr [(''alg'', JStr ''RS256''), (''kid'', JStr ''k1'')]
        else Inl Jose_JWTError),
      jwt_decode = (\<lambda>ts key alg aud verify.
        if ts = ''jwt-k1'' \<and> key = JArr [key_k1] \<and> alg = JStr ''RS256''
        then (if verify \<and> aud \<noteq> ''cnaas'' then Inl Jose_JWTClaimsError else Inr claims_alice)
        else Inl Jose_JWTError),
      now = 1000,
      redis_session_fails = False,
      hget_fails = False,
      hsetnx_fails = False,
      expireat_fails = False,
      get_permissions_user = (\<lambda>rules user_info. []),
      check_if_api_call_is_permitted = (\<lambda>request permissions. False),
      get_jwt_identity_orig = JStr ''alice'',
      current_token = token_alice\<rparr>"

text \<open>The same world with provider-based verification switched off.\<close>

definition disabled_env :: env where
  "disabled_env = example_env\<lparr>auth := example_auth\<lparr>OIDC_ENABLED := False\<rparr>\<rparr>"

text \<open>The same world with an identity provider that cannot be reached.\<close>

definition unreachable_env :: env where
  "unreachable_env = example_env\<lparr>http_get := (\<lambda>url. Inl Req_ConnectionError)\<rparr>"

text \<open>The same world with a provider whose key set has one key, without a \<^verbatim>\<open>kid\<close> member.\<close>

definition kidless_env :: env where
  "kidless_env =
     example_env\<lparr>json_loads := (\<lambda>s.
        if s = ''discovery'' then
          Some (JObj [(''jwks_uri'', JStr ''https://idp.example/jwks''),
                      (''userinfo_endpoint'', JStr ''https://idp.example/userinfo'')])
        else if s = ''jwks'' then
          Some (JObj [(''keys'', JArr [JObj [(''kty'', JStr ''RSA''), (''alg'', JStr ''RS256'')]])])
        else None)\<rparr>"

text \<open>
  The same world with a provider whose key set has a key without a \<^verbatim>\<open>kid\<close> member,
  followed by the key \<open>k1\<close>.
\<close>

definition mixed_env :: env where
  "mixed_env =
     example_env\<lparr>json_loads := (\<lambda>s.
        if s = ''discovery'' then
          Some (JObj [(''jwks_uri'', JStr ''https://idp.example/jwks''),
                      (''userinfo_endpoint'', JStr ''https://idp.example/userinfo'')])
        else if s = ''jwks'' then
          Some (JObj [(''keys'', JArr [JObj [(''kty'', JStr ''RSA''), (''alg'', JStr ''RS256'')], key_k1])])
        else None)\<rparr>"

text \<open>The same world, configured with an audience that the token was not issued for.\<close>

definition audience_env :: env where
  "audience_env = example_env\<lparr>auth := example_auth\<lparr>AUDIENCE := ''other''\<rparr>\<rparr>"

text \<open>The same world with a rule table that is not empty.\<close>

definition rules_env :: env where
  "rules_env =
     example_env\<lparr>auth := example_auth\<lparr>PERMISSIONS :=
       JObj [(''network-admins'', JArr [JStr ''PUT /devices/*''])]\<rparr>\<rparr>"

text \<open>
  States: a store that holds \<open>k1\<close>, the store of a fresh process, and a store whose only
  key has no \<^verbatim>\<open>kid\<close> member.
\<close>

definition example_state :: state where
  "example_state = \<lparr>jwks_keys = JArr [key_k1], userinfo_cache = [], cache_expiry = None, trace = []\<rparr>"

definition fresh_state :: state where
  "fresh_state = \<lparr>jwks_keys = JWKSStore_init JNull, userinfo_cache = [], cache_expiry = None, trace = []\<rparr>"

definition kidless_state :: state where
  "kidless_state =
     \<lparr>jwks_keys = JArr [JObj [(''kty'', JStr ''RSA''), (''alg'', JStr ''RS256'')]],
      userinfo_cache = [], cache_expiry = None, trace = []\<rparr>"

text \<open>The store that a refresh from the provider of \<open>mixed_env\<close> installs.\<close>

definition mixed_state :: state where
  "mixed_state =
     \<lparr>jwks_keys = JArr [JObj [(''kty'', JStr ''RSA''), (''alg'', JStr ''RS256'')], key_k1],
      userinfo_cache = [], cache_expiry = None, trace = []\<rparr>"

text \<open>A cache that already holds an entry of another subject, expiring at 2000.\<close>

definition cached_state :: state where
  "cached_state =
     \<lparr>jwks_keys = JArr [key_k1], userinfo_cache = [(''bob'', ''userinfo-bob'')],
      cache_expiry = Some 2000, trace = []\<rparr>"

section \<open>Rules for running statements\<close>

lemma bnd_apply: "bnd m f s = (case m s of (Inl e, s') \<Rightarrow> (Inl e, s') | (Inr x, s') \<Rightarrow> f x s')"
  by (simp add: bnd_def)

lemma catch_apply: "catch m h s = (case m s of (Inl e, s') \<Rightarrow> h e s' | (Inr x, s') \<Rightarrow> (Inr x, s'))"
  by (simp add: catch_def)

lemma ret_apply: "ret x s = (Inr x, s)"
  by (simp add: ret_def)

lemma throw_apply: "throw e s = (Inl e, s)"
  by (simp add: throw_def)

lemma lift_apply: "lift r s = (r, s)"
  by (simp add: lift_def)

lemma log_apply: "log ev s = (Inr (), s\<lparr>trace := trace s @ [ev]\<rparr>)"
  by (simp add: log_def)

lemma read_keys_apply: "read_keys s = (Inr (jwks_keys s), s)"
  by (simp add: read_keys_def)

lemma write_keys_apply: "write_keys ks s = (Inr (), s\<lparr>jwks_keys := ks\<rparr>)"
  by (simp add: write_keys_def)

lemmas prog_simps = bnd_apply catch_apply ret_apply throw_apply lift_apply log_apply
  read_keys_apply write_keys_apply

section \<open>Facts about the key store\<close>

lemma get_keys_body_keeps:
  "get_keys_body env st = (Inl e, st') \<Longrightarrow> jwks_keys st' = jwks_keys st"
  by (auto simp: get_keys_body_def s_get_def prog_simps split: sum.splits prod.splits)

lemma get_keys_refresh_count:
  "count_list (trace (snd (get_keys env st))) EvRefresh = Suc (count_list (trace st) EvRefresh)"
  by (auto simp: get_keys_def get_keys_body_def s_get_def prog_simps split: sum.splits prod.splits)

lemma get_keys_lookup_count:
  "count_list (trace (snd (get_keys env st))) EvLookup = count_list (trace st) EvLookup"
  by (auto simp: get_keys_def get_keys_body_def s_get_def prog_simps split: sum.splits prod.splits)

lemma get_keys_unreachable:
  "http_get env (JStr (OIDC_CONF_WELL_KNOWN_URL (auth env))) = Inl Req_ConnectionError \<Longrightarrow>
   get_keys env st =
     (Inl (Requests Req_ConnectionError),
      st\<lparr>trace := trace st @ [EvRefresh, EvGet (JStr (OIDC_CONF_WELL_KNOWN_URL (auth env)))]\<rparr>)"
  by (simp add: get_keys_def get_keys_body_def s_get_def prog_simps)

text \<open>Each of the failures of a refresh named in the specification makes \<^verbatim>\<open>get_keys\<close> raise.\<close>

lemma get_keys_fails:
  assumes "http_get env (JStr (OIDC_CONF_WELL_KNOWN_URL (auth env))) = Inl x
           \<or> (\<exists>m. http_get env (JStr (OIDC_CONF_WELL_KNOWN_URL (auth env))) = Inr m
                \<and> (json_loads env (resp_text m) = None
                     \<or> (\<exists>mj. json_loads env (resp_text m) = Some mj
                          \<and> ((\<exists>y. getitem mj ''jwks_uri'' = Inl y)
                               \<or> (\<exists>u. getitem mj ''jwks_uri'' = Inr u
                                    \<and> ((\<exists>y. http_get env u = Inl y)
                                         \<or> (\<exists>r. http_get env u = Inr r
                                              \<and> (json_loads env (resp_text r) = None
                                                   \<or> (\<exists>rj. json_loads env (resp_text r) = Some rj
                                                        \<and> (\<exists>y. getitem rj ''keys'' = Inl y))))))))))"
  shows "\<exists>e. fst (get_keys env st) = Inl e"
  using assms
  by (auto simp: get_keys_def get_keys_body_def s_get_def resp_json_def prog_simps)

lemma filter_kid_total:
  "\<forall>k\<in>set ks. \<exists>v. getitem k ''kid'' = Inr v \<Longrightarrow>
   filter_kid ks kid = Inr (filter (\<lambda>k. getitem k ''kid'' = Inr kid) ks)"
  by (induction ks) auto

lemma lookup_kid_apply:
  "lookup_kid kid s =
     (case py_iter (jwks_keys s) of
        Inl e \<Rightarrow> (Inl e, s\<lparr>trace := trace s @ [EvLookup]\<rparr>)
      | Inr ks \<Rightarrow> (filter_kid ks kid, s\<lparr>trace := trace s @ [EvLookup]\<rparr>))"
  by (simp add: lookup_kid_def prog_simps split: sum.splits)

lemma get_key_hit:
  "py_iter (jwks_keys st) = Inr ks \<Longrightarrow> filter_kid ks kid = Inr key \<Longrightarrow> key \<noteq> [] \<Longrightarrow>
   get_key env kid st = (Inr key, st\<lparr>trace := trace st @ [EvLookup]\<rparr>)"
  by (simp add: get_key_def lookup_kid_apply prog_simps)

text \<open>
  The retry policy of \<^verbatim>\<open>get_key\<close> when the first search runs to its end and finds
  nothing: the key set is refreshed once, the store is searched at most once more, and a
  refreshed key set that is empty, has a key without \<^verbatim>\<open>kid\<close>, or still lacks the
  identifier ends in InvalidKeyError.
\<close>

lemma get_key_miss_unfold:
  assumes "py_iter (jwks_keys st) = Inr ks" and "filter_kid ks kid = Inr []"
  shows "get_key env kid st =
           (case get_keys env (st\<lparr>trace := trace st @ [EvLookup]\<rparr>) of
              (Inl e, s2) \<Rightarrow> (Inl e, s2)
            | (Inr u, s2) \<Rightarrow>
                (case py_len (jwks_keys s2) of
                   Inl e \<Rightarrow> (Inl e, s2)
                 | Inr n \<Rightarrow>
                     if n = 0 then (Inl InvalidKeyError, s2)
                     else (case py_iter (jwks_keys s2) of
                             Inl e \<Rightarrow> (Inl (if e = KeyError then InvalidKeyError else e),
                                       s2\<lparr>trace := trace s2 @ [EvLookup]\<rparr>)
                           | Inr ks2 \<Rightarrow>
                               (case filter_kid ks2 kid of
                                  Inl e \<Rightarrow> (Inl (if e = KeyError then InvalidKeyError else e),
                                            s2\<lparr>trace := trace s2 @ [EvLookup]\<rparr>)
                                | Inr key' \<Rightarrow>
                                    (if key' = [] then Inl InvalidKeyError else Inr key',
                                     s2\<lparr>trace := trace s2 @ [EvLookup]\<rparr>)))))"
  using assms
  by (simp add: get_key_def lookup_kid_apply prog_simps split: sum.splits prod.splits)

lemma get_key_miss_refreshes_once:
  assumes "py_iter (jwks_keys st) = Inr ks" and "filter_kid ks kid = Inr []"
  shows "count_list (trace (snd (get_key env kid st))) EvRefresh = Suc (count_list (trace st) EvRefresh)"
    and "count_list (trace (snd (get_key env kid st))) EvLookup \<le> count_list (trace st) EvLookup + 2"
proof -
  let ?s1 = "st\<lparr>trace := trace st @ [EvLookup]\<rparr>"
  obtain r s2 where g: "get_keys env ?s1 = (r, s2)"
    by (cases "get_keys env ?s1")
  have c1: "count_list (trace s2) EvRefresh = Suc (count_list (trace st) EvRefresh)"
    using get_keys_refresh_count[of env ?s1] g by simp
  have c2: "count_list (trace s2) EvLookup = Suc (count_list (trace st) EvLookup)"
    using get_keys_lookup_count[of env ?s1] g by simp
  show "count_list (trace (snd (get_key env kid st))) EvRefresh = Suc (count_list (trace st) EvRefresh)"
    unfolding get_key_miss_unfold[OF assms] g using c1
    by (simp split: sum.splits)
  show "count_list (trace (snd (get_key env kid st))) EvLookup \<le> count_list (trace st) EvLookup + 2"
    unfolding get_key_miss_unfold[OF assms] g using c2
    by (simp split: sum.splits)
qed

lemma get_key_still_missing:
  assumes "py_iter (jwks_keys st) = Inr ks" and "filter_kid ks kid = Inr []"
    and "get_keys env (st\<lparr>trace := trace st @ [EvLookup]\<rparr>) = (Inr (), s2)"
    and "jwks_keys s2 = JArr ks2"
    and "filter_kid ks2 kid = Inr [] \<or> filter_kid ks2 kid = Inl KeyError"
  shows "fst (get_key env kid st) = Inl InvalidKeyError"
  unfolding get_key_miss_unfold[OF assms(1,2)] using assms(3,4,5)
  by auto

section \<open>Facts about the cache\<close>

lemma purge_idem: "purge t (purge t s) = purge t s"
  by (simp add: purge_def split: option.splits)

lemma purge_trace: "purge t (s\<lparr>trace := tr\<rparr>) = (purge t s)\<lparr>trace := tr\<rparr>"
  by (simp add: purge_def split: option.splits)

lemma purge_live:
  "cache_expiry s = None \<or> (\<exists>e. cache_expiry s = Some e \<and> t < e) \<Longrightarrow> purge t s = s"
  by (auto simp: purge_def split: option.splits)

lemma purge_cases:
  "(purge t s = s \<and> (cache_expiry s = None \<or> (\<exists>e. cache_expiry s = Some e \<and> t < e))) \<or>
   (purge t s = s\<lparr>userinfo_cache := [], cache_expiry := None\<rparr>)"
  by (auto simp: purge_def split: option.splits)

lemma hget_apply:
  "hget env f s =
     (if hget_fails env \<or> redis_field f = None
      then (Inl RedisError, s\<lparr>trace := trace s @ [EvHget f]\<rparr>)
      else (Inr (map_of (userinfo_cache (purge (now env) s)) (the (redis_field f))),
            (purge (now env) s)\<lparr>trace := trace s @ [EvHget f]\<rparr>))"
  by (auto simp: hget_def prog_simps Let_def purge_trace split: option.splits)

lemma hsetnx_apply:
  "hsetnx env f v s =
     (if hsetnx_fails env \<or> redis_field f = None
      then (Inl RedisError, s\<lparr>trace := trace s @ [EvHsetnx f v]\<rparr>)
      else (Inr (),
            (if map_of (userinfo_cache (purge (now env) s)) (the (redis_field f)) = None
             then (purge (now env) s)\<lparr>userinfo_cache :=
                    (the (redis_field f), v) # userinfo_cache (purge (now env) s)\<rparr>
             else purge (now env) s)\<lparr>trace := trace s @ [EvHsetnx f v]\<rparr>))"
  by (auto simp: hsetnx_def prog_simps Let_def purge_trace split: option.splits)

lemma expireat_lt_apply:
  "expireat_lt env w s =
     (if expireat_fails env then (Inl RedisError, s\<lparr>trace := trace s @ [EvExpireat w]\<rparr>)
      else (Inr (),
            (if userinfo_cache (purge (now env) s) = [] then purge (now env) s
             else (case cache_expiry (purge (now env) s) of
                     None \<Rightarrow> (purge (now env) s)\<lparr>cache_expiry := Some w\<rparr>
                   | Some cur \<Rightarrow> if w < cur then (purge (now env) s)\<lparr>cache_expiry := Some w\<rparr>
                                  else purge (now env) s))\<lparr>trace := trace s @ [EvExpireat w]\<rparr>))"
  by (simp add: expireat_lt_def prog_simps Let_def purge_trace split: option.splits)

text \<open>The two commands of a cache write, one after the other, on any state.\<close>

lemma hsetnx_then_expireat:
  assumes "\<not> hsetnx_fails env" "\<not> expireat_fails env" "redis_field f = Some fs"
  shows "bnd (hsetnx env f v) (\<lambda>_. expireat_lt env w) s = (Inr (), s') \<Longrightarrow>
         cache_expiry s' = Some (case cache_expiry (purge (now env) s) of
                                   None \<Rightarrow> w | Some stored \<Rightarrow> min stored w)"
    and "fst (bnd (hsetnx env f v) (\<lambda>_. expireat_lt env w) s) = Inr ()"
proof -
  let ?p = "purge (now env) s"
  let ?s1 = "(if map_of (userinfo_cache ?p) fs = None
             then ?p\<lparr>userinfo_cache := (fs, v) # userinfo_cache ?p\<rparr>
             else ?p)\<lparr>trace := trace s @ [EvHsetnx f v]\<rparr>"
  have h: "hsetnx env f v s = (Inr (), ?s1)"
    using assms by (simp add: hsetnx_apply)
  have exp1: "cache_expiry ?s1 = cache_expiry ?p" by simp
  have live: "purge (now env) ?s1 = ?s1"
    using purge_cases[of "now env" s] by (intro purge_live) auto
  have ne: "userinfo_cache ?s1 \<noteq> []" by auto
  have e: "expireat_lt env w ?s1 =
      (Inr (), (case cache_expiry ?p of
                     None \<Rightarrow> ?s1\<lparr>cache_expiry := Some w\<rparr>
                   | Some cur \<Rightarrow> if w < cur then ?s1\<lparr>cache_expiry := Some w\<rparr>
                                  else ?s1)\<lparr>trace := trace ?s1 @ [EvExpireat w]\<rparr>)"
    using assms(2) ne unfolding expireat_lt_apply live exp1 by simp
  have b: "bnd (hsetnx env f v) (\<lambda>_. expireat_lt env w) s = expireat_lt env w ?s1"
    unfolding bnd_apply h by simp
  show "fst (bnd (hsetnx env f v) (\<lambda>_. expireat_lt env w) s) = Inr ()"
    unfolding b e by simp
  show "bnd (hsetnx env f v) (\<lambda>_. expireat_lt env w) s = (Inr (), s') \<Longrightarrow>
         cache_expiry s' = Some (case cache_expiry (purge (now env) s) of
                                   None \<Rightarrow> w | Some stored \<Rightarrow> min stored w)"
    unfolding b e by (cases "cache_expiry ?p") auto
qed

section \<open>Facts about identity resolution\<close>

lemma opaque_userinfo_TypeError:
  "OIDC_ENABLED (auth env) \<Longrightarrow> \<not> redis_session_fails env \<Longrightarrow>
   get_oauth_userinfo env \<lparr>token_string = ts, decoded_token = JNull\<rparr> st = (Inl TypeError, st)"
  by (simp add: get_oauth_userinfo_def cache_read_def redis_session_def prog_simps)

lemma cache_write_apply:
  assumes "\<not> redis_session_fails env" "decoded_token tok = JObj c" "map_of c ''sub'' = Some sub"
    "map_of c ''exp'' = Some ex" "py_int ex = Inr e"
  shows "cache_write env tok r s =
           bnd (hsetnx env sub (resp_text r)) (\<lambda>_. expireat_lt env (min e (now env + 3600))) s"
proof -
  have "''exp'' \<in> fst ` set c"
    using assms(4) by (auto dest: map_of_SomeD intro: rev_image_eqI)
  then show ?thesis
    using assms
    by (simp add: cache_write_def redis_session_def prog_simps split: prod.splits sum.splits)
qed

lemma cache_read_miss:
  assumes "\<not> redis_session_fails env" "decoded_token tok = JObj c" "map_of c ''sub'' = Some sub"
    "redis_field sub = Some f"
    "hget_fails env \<or> map_of (userinfo_cache (purge (now env) st)) f = None
      \<or> map_of (userinfo_cache (purge (now env) st)) f = Some []"
  shows "fst (cache_read env tok st) = Inr None \<and>
         cache_expiry (purge (now env) (snd (cache_read env tok st))) = cache_expiry (purge (now env) st)"
proof (cases "hget_fails env")
  case True
  then show ?thesis
    using assms(1-4)
    by (simp add: cache_read_def redis_session_def hget_apply prog_simps purge_trace)
next
  case False
  then show ?thesis
    using assms
    by (auto simp: cache_read_def redis_session_def hget_apply prog_simps purge_trace purge_idem)
qed

lemma fetch_metadata_ok:
  assumes "http_get env (JStr (OIDC_CONF_WELL_KNOWN_URL (auth env))) = Inr m"
    "raise_for_status m = Inr ()"
  shows "fetch_metadata env s =
           (Inr m, s\<lparr>trace := trace s @ [EvGet (JStr (OIDC_CONF_WELL_KNOWN_URL (auth env)))]\<rparr>)"
  using assms by (simp add: fetch_metadata_def s_get_def prog_simps)

lemma fetch_userinfo_ok:
  assumes "\<not> redis_session_fails env" "\<not> hsetnx_fails env" "\<not> expireat_fails env"
    "decoded_token tok = JObj c" "map_of c ''sub'' = Some sub" "redis_field sub = Some f"
    "map_of c ''exp'' = Some ex" "py_int ex = Inr e"
    "http_post env ep (token_string tok) = Inr r" "raise_for_status r = Inr ()"
    "json_loads env (resp_text r) = Some ui"
  shows "fst (fetch_userinfo env tok ep s) = Inr r \<and>
         cache_expiry (snd (fetch_userinfo env tok ep s)) =
           Some (case cache_expiry (purge (now env) s) of
                   None \<Rightarrow> min e (now env + 3600)
                 | Some stored \<Rightarrow> min stored (min e (now env + 3600)))"
proof -
  let ?s1 = "s\<lparr>trace := trace s @ [EvPost ep (token_string tok)]\<rparr>"
  let ?w = "min e (now env + 3600)"
  have post: "s_post env ep (token_string tok) s = (Inr r, ?s1)"
    using assms(9) by (simp add: s_post_def prog_simps)
  obtain s2 where w: "cache_write env tok r ?s1 = (Inr (), s2)"
    using hsetnx_then_expireat(2)[OF assms(2,3,6), of "resp_text r" ?w ?s1]
    unfolding cache_write_apply[OF assms(1,4,5,7,8)]
    by (metis prod.collapse)
  have exp2: "cache_expiry s2 = Some (case cache_expiry (purge (now env) ?s1) of
                                   None \<Rightarrow> ?w | Some stored \<Rightarrow> min stored ?w)"
    using hsetnx_then_expireat(1)[OF assms(2,3,6), of "resp_text r" ?w ?s1 s2] w
    unfolding cache_write_apply[OF assms(1,4,5,7,8)] by simp
  have "fetch_userinfo env tok ep s = (Inr r, s2)"
    using assms(10,11) by (simp add: fetch_userinfo_def bnd_apply[of "s_post _ _ _"] post
        bnd_apply[of "lift _"] bnd_apply[of "catch _ _"] catch_apply w lift_apply ret_apply resp_json_def)
  then show ?thesis
    using exp2 by (simp add: purge_trace)
qed

text \<open>
  A resolution that misses the cache, reaches the provider and writes the cache: the
  answer is returned and the hash expires at the earlier of its stored expiry and of
  \<open>min e (now + 3600)\<close>.
\<close>

lemma resolve_remote:
  assumes oidc: "OIDC_ENABLED (auth env)"
    and redis: "\<not> redis_session_fails env" "\<not> hsetnx_fails env" "\<not> expireat_fails env"
    and claims: "decoded_token tok = JObj c" "map_of c ''sub'' = Some sub" "redis_field sub = Some f"
      "map_of c ''exp'' = Some ex" "py_int ex = Inr e"
    and miss: "hget_fails env \<or> map_of (userinfo_cache (purge (now env) st)) f = None
      \<or> map_of (userinfo_cache (purge (now env) st)) f = Some []"
    and discovery: "http_get env (JStr (OIDC_CONF_WELL_KNOWN_URL (auth env))) = Inr m"
      "raise_for_status m = Inr ()" "json_loads env (resp_text m) = Some mj"
      "getitem mj ''userinfo_endpoint'' = Inr ep"
    and post: "http_post env ep (token_string tok) = Inr r" "raise_for_status r = Inr ()"
      "json_loads env (resp_text r) = Some ui"
  shows "fst (get_oauth_userinfo env tok st) = Inr ui \<and>
         cache_expiry (snd (get_oauth_userinfo env tok st)) =
           Some (case cache_expiry (purge (now env) st) of
                   None \<Rightarrow> min e (now env + 3600)
                 | Some stored \<Rightarrow> min stored (min e (now env + 3600)))"
proof -
  obtain s1 where r1: "cache_read env tok st = (Inr None, s1)"
    and e1: "cache_expiry (purge (now env) s1) = cache_expiry (purge (now env) st)"
    using cache_read_miss[OF redis(1) claims(1,2,3) miss] by (metis prod.collapse)
  let ?s2 = "s1\<lparr>trace := trace s1 @ [EvGet (JStr (OIDC_CONF_WELL_KNOWN_URL (auth env)))]\<rparr>"
  have r2: "fetch_metadata env s1 = (Inr m, ?s2)"
    using discovery(1,2) by (rule fetch_metadata_ok)
  obtain s3 where r3: "fetch_userinfo env tok ep ?s2 = (Inr r, s3)"
    and e3: "cache_expiry s3 = Some (case cache_expiry (purge (now env) ?s2) of
                   None \<Rightarrow> min e (now env + 3600)
                 | Some stored \<Rightarrow> min stored (min e (now env + 3600)))"
    using fetch_userinfo_ok[OF redis claims post, of ?s2] by (metis prod.collapse)
  have "get_oauth_userinfo env tok st = (Inr ui, s3)"
    using oidc discovery(3,4) post(3)
    by (simp add: get_oauth_userinfo_def bnd_apply r1 r2 r3 lift_apply ret_apply resp_json_def)
  then show ?thesis
    using e3 e1 by (simp add: purge_trace)
qed

section \<open>Authentication never raises the refusal of the permission check\<close>

lemma no_aud_ret: "no_aud (ret x)"
  by (simp add: no_aud_def prog_simps)

lemma no_aud_throw: "e \<noteq> InvalidAudienceError \<Longrightarrow> no_aud (throw e)"
  by (simp add: no_aud_def prog_simps)

lemma no_aud_lift: "r \<noteq> Inl InvalidAudienceError \<Longrightarrow> no_aud (lift r)"
  by (simp add: no_aud_def prog_simps)

lemma no_aud_log: "no_aud (log ev)"
  by (simp add: no_aud_def prog_simps)

lemma no_aud_read_keys: "no_aud read_keys"
  by (simp add: no_aud_def prog_simps)

lemma no_aud_write_keys: "no_aud (write_keys ks)"
  by (simp add: no_aud_def prog_simps)

lemma no_aud_bnd: "no_aud m \<Longrightarrow> (\<And>x. no_aud (f x)) \<Longrightarrow> no_aud (bnd m f)"
  by (auto simp: no_aud_def prog_simps split: sum.splits prod.splits) (metis fst_conv)+

lemma no_aud_catch:
  "no_aud m \<Longrightarrow> (\<And>e. e \<noteq> InvalidAudienceError \<Longrightarrow> no_aud (h e)) \<Longrightarrow> no_aud (catch m h)"
  by (auto simp: no_aud_def prog_simps split: sum.splits prod.splits) (metis fst_conv)+

lemma getitem_not_aud: "getitem v n \<noteq> Inl InvalidAudienceError"
  by (cases v) (auto split: option.splits)

lemma contains_not_aud: "contains n v \<noteq> Inl InvalidAudienceError"
  by (cases v) auto

lemma py_int_not_aud: "py_int v \<noteq> Inl InvalidAudienceError"
  by (cases v) (auto split: option.splits)

lemma py_iter_not_aud: "py_iter v \<noteq> Inl InvalidAudienceError"
  by (cases v) auto

lemma py_len_not_aud: "py_len v \<noteq> Inl InvalidAudienceError"
  by (cases v) auto

lemma resp_json_not_aud: "resp_json env r \<noteq> Inl InvalidAudienceError"
  by (simp add: resp_json_def split: option.splits)

lemma loads_not_aud: "loads env r \<noteq> Inl InvalidAudienceError"
  by (simp add: loads_def split: option.splits)

lemma userinfo_error_not_aud: "userinfo_error env r \<noteq> InvalidAudienceError"
  by (cases "loads env (resp_text r)")
     (auto simp: userinfo_error_def getitem_not_aud split: sum.splits json.splits)

lemma raise_for_status_not_aud: "raise_for_status r \<noteq> Inl InvalidAudienceError"
  by (simp add: raise_for_status_def)

lemma filter_kid_not_aud: "filter_kid ks kid \<noteq> Inl InvalidAudienceError"
  by (induction ks) (auto simp: getitem_not_aud split: sum.splits)

lemmas no_aud_intros = no_aud_ret no_aud_throw no_aud_lift no_aud_log no_aud_read_keys
  no_aud_write_keys no_aud_bnd no_aud_catch

lemmas pure_not_aud = getitem_not_aud contains_not_aud py_int_not_aud py_iter_not_aud
  py_len_not_aud resp_json_not_aud loads_not_aud raise_for_status_not_aud filter_kid_not_aud
  userinfo_error_not_aud

lemma no_aud_s_get: "no_aud (s_get env url)"
  unfolding s_get_def by (intro no_aud_intros) (auto split: sum.splits)

lemma no_aud_s_post: "no_aud (s_post env url b)"
  unfolding s_post_def by (intro no_aud_intros) (auto split: sum.splits)

lemma no_aud_redis_session: "no_aud (redis_session env)"
  by (simp add: redis_session_def no_aud_intros)

lemma no_aud_hget: "no_aud (hget env f)"
  by (simp add: no_aud_def hget_apply)

lemma no_aud_hsetnx: "no_aud (hsetnx env f v)"
  by (simp add: no_aud_def hsetnx_apply)

lemma no_aud_expireat_lt: "no_aud (expireat_lt env w)"
  by (simp add: expireat_lt_def no_aud_def prog_simps Let_def)

lemmas no_aud_prims = no_aud_s_get no_aud_s_post no_aud_redis_session no_aud_hget no_aud_hsetnx
  no_aud_expireat_lt

lemma no_aud_get_keys: "no_aud (get_keys env)"
  unfolding get_keys_def get_keys_body_def
  by (intro no_aud_intros no_aud_prims) (simp_all add: pure_not_aud no_aud_intros)

lemma no_aud_lookup_kid: "no_aud (lookup_kid kid)"
  unfolding lookup_kid_def
  by (intro no_aud_intros) (simp_all add: pure_not_aud)

lemma no_aud_get_key: "no_aud (get_key env kid)"
  unfolding get_key_def
  by (intro no_aud_intros no_aud_lookup_kid)
     (auto simp: pure_not_aud intro!: no_aud_intros no_aud_lookup_kid no_aud_get_keys)

lemma no_aud_cache_read: "no_aud (cache_read env tok)"
  unfolding cache_read_def
  by (intro no_aud_intros no_aud_prims)
     (auto simp: pure_not_aud intro!: no_aud_intros no_aud_prims split: option.splits)

lemma no_aud_fetch_metadata: "no_aud (fetch_metadata env)"
  unfolding fetch_metadata_def
  by (intro no_aud_intros no_aud_prims)
     (auto simp: pure_not_aud intro!: no_aud_intros no_aud_prims)

lemma no_aud_cache_write: "no_aud (cache_write env tok resp)"
  unfolding cache_write_def
  by (intro no_aud_intros no_aud_prims)
     (auto simp: pure_not_aud intro!: no_aud_intros no_aud_prims)

lemma no_aud_fetch_userinfo: "no_aud (fetch_userinfo env tok ep)"
  unfolding fetch_userinfo_def
  by (intro no_aud_intros no_aud_prims no_aud_cache_write)
     (auto simp: pure_not_aud intro!: no_aud_intros no_aud_prims)

lemma no_aud_get_oauth_userinfo: "no_aud (get_oauth_userinfo env tok)"
  unfolding get_oauth_userinfo_def
  by (auto simp: pure_not_aud split: option.splits
      intro!: no_aud_intros no_aud_cache_read no_aud_fetch_metadata no_aud_fetch_userinfo)

lemma no_aud_authenticate_token: "no_aud (authenticate_token env ts)"
  unfolding authenticate_token_def
  by (auto simp: pure_not_aud Let_def split: option.splits sum.splits
      intro!: no_aud_intros no_aud_get_oauth_userinfo no_aud_get_key)

section \<open>The example data, evaluated\<close>

lemmas example_defs = example_env_def example_auth_def example_state_def fresh_state_def
  kidless_state_def cached_state_def disabled_env_def unreachable_env_def rules_env_def
  kidless_env_def mixed_env_def mixed_state_def audience_env_def
  idp_well_known_def key_k1_def key_k2_def key_k3_def claims_alice_def userinfo_alice_def
  token_alice_def JWKSStore_init_def


text \<open>
  How a store comes to hold a key without \<^verbatim>\<open>kid\<close>: a first call of \<^verbatim>\<open>get_key\<close> in a
  fresh process refreshes the store from a provider that serves such a key set; the
  second search raises InvalidKeyError and the key set stays in the store.
\<close>

lemma kidless_store_installed:
  "get_key kidless_env (JStr ''k1'') fresh_state =
     (Inl InvalidKeyError,
      kidless_state\<lparr>trace := [EvLookup, EvRefresh, EvGet (JStr idp_well_known),
                               EvGet (JStr ''https://idp.example/jwks''), EvLookup]\<rparr>)"
  by (simp add: get_key_def get_keys_def get_keys_body_def lookup_kid_apply s_get_def resp_json_def
      prog_simps example_defs)

section \<open>Token verification\<close>

text \<open>
  With \<^verbatim>\<open>OIDC_ENABLED\<close> set, a header that can be decoded, a store that is a list of keys
  that all carry a \<^verbatim>\<open>kid\<close>, one of them the \<^verbatim>\<open>kid\<close> of the header, and a token that
  \<^verbatim>\<open>jwt.decode\<close> accepts under the keys with that \<^verbatim>\<open>kid\<close>, \<^verbatim>\<open>authenticate_token\<close> returns a
  token whose decoded claims are the decoded payload; the store is searched once and not
  refreshed.
\<close>

lemma authenticate_token_wellformed_store:
  assumes "OIDC_ENABLED (auth env)"
    and "get_unverified_header env ts = Inr h"
    and "py_iter (jwks_keys st) = Inr ks"
    and "\<forall>k\<in>set ks. \<exists>v. getitem k ''kid'' = Inr v"
    and "\<exists>k\<in>set ks. getitem k ''kid'' = Inr (dict_get h ''kid'')"
    and "jwt_decode env ts (JArr (filter (\<lambda>k. getitem k ''kid'' = Inr (dict_get h ''kid'')) ks))
           (dict_get h ''alg'') (AUDIENCE (auth env)) (VERIFY_AUDIENCE (auth env)) = Inr payload"
  shows "authenticate_token env ts st =
           (Inr (Tok \<lparr>token_string = ts, decoded_token = payload\<rparr>),
            st\<lparr>trace := trace st @ [EvLookup]\<rparr>)"
proof -
  let ?key = "filter (\<lambda>k. getitem k ''kid'' = Inr (dict_get h ''kid'')) ks"
  have f: "filter_kid ks (dict_get h ''kid'') = Inr ?key"
    using assms(4) by (rule filter_kid_total)
  have ne: "?key \<noteq> []"
    using assms(5) by (auto simp: filter_empty_conv)
  have "get_key env (dict_get h ''kid'') st = (Inr ?key, st\<lparr>trace := trace st @ [EvLookup]\<rparr>)"
    using assms(3) f ne by (rule get_key_hit)
  then show ?thesis
    using assms(1,2,6) by (simp add: authenticate_token_def prog_simps)
qed

lemma authenticate_token_example:
  "authenticate_token example_env ''jwt-k1'' example_state =
     (Inr (Tok \<lparr>token_string = ''jwt-k1'', decoded_token = claims_alice\<rparr>),
      example_state\<lparr>trace := [EvLookup]\<rparr>)"
  using authenticate_token_wellformed_store[where env = example_env and ts = "''jwt-k1''"
      and st = example_state and h = "[(''alg'', JStr ''RS256''), (''kid'', JStr ''k1'')]"
      and ks = "[key_k1]" and payload = claims_alice]
  by (simp add: example_defs dict_get_def)




text \<open>
  C2: a token string whose header raises \<^verbatim>\<open>JWTError\<close> is to be resolved through the
  userinfo path and returned as a token without claims. In the code the token is built
  with \<^verbatim>\<open>None\<close> as its claims, and the first statement of the cache read subscripts these
  claims with \<^verbatim>\<open>"sub"\<close>: that raises TypeError, which the handlers of the block (RedisError
  and KeyError) let pass. With a Redis session that can be entered, every such token
  string ends in TypeError before any call is made.
\<close>

theorem authenticate_token_opaque_TypeError:
  assumes "OIDC_ENABLED (auth env)"
    and "\<not> redis_session_fails env"
    and "get_unverified_header env ts = Inl e"
    and "is_JWTError e"
  shows "authenticate_token env ts st = (Inl TypeError, st)"
  using assms
  by (cases e) (simp_all add: authenticate_token_def opaque_userinfo_TypeError prog_simps Let_def)

theorem authenticate_token_opaque_TypeError_witness:
  "get_unverified_header example_env ''opaque-token'' = Inl Jose_JWTError
   \<and> authenticate_token example_env ''opaque-token'' example_state = (Inl TypeError, example_state)"
  using authenticate_token_opaque_TypeError[of example_env "''opaque-token''" Jose_JWTError example_state]
  by (simp add: example_defs)

section \<open>Key resolution\<close>

text \<open>
  C3: a key identifier that is not in the store is to cause one refresh and at most one
  further search. The first search of \<^verbatim>\<open>get_key\<close> is outside any \<^verbatim>\<open>try\<close> block: when the
  first key of the store has no \<^verbatim>\<open>kid\<close> member, no key of the store has the identifier
  asked for, and \<^verbatim>\<open>get_key\<close> ends in KeyError without any refresh. The second search of
  the same function handles this KeyError.
\<close>

theorem get_key_kidless_KeyError:
  assumes "jwks_keys st = JArr (JObj kvs # ks)"
    and "map_of kvs ''kid'' = None"
  shows "get_key env kid st = (Inl KeyError, st\<lparr>trace := trace st @ [EvLookup]\<rparr>)
         \<and> count_list (trace (snd (get_key env kid st))) EvRefresh = count_list (trace st) EvRefresh"
  using assms by (simp add: get_key_def lookup_kid_apply prog_simps)

theorem get_key_kidless_KeyError_witness:
  "snd (get_key kidless_env (JStr ''k1'') fresh_state) =
     kidless_state\<lparr>trace := [EvLookup, EvRefresh, EvGet (JStr idp_well_known),
                              EvGet (JStr ''https://idp.example/jwks''), EvLookup]\<rparr>
   \<and> get_key kidless_env (JStr ''k1'') kidless_state =
       (Inl KeyError, kidless_state\<lparr>trace := [EvLookup]\<rparr>)
   \<and> count_list (trace (snd (get_key kidless_env (JStr ''k1'') kidless_state))) EvRefresh = 0"
  using get_key_kidless_KeyError[where env = kidless_env and kid = "JStr ''k1''"
      and st = kidless_state and kvs = "[(''kty'', JStr ''RSA''), (''alg'', JStr ''RS256'')]" and ks = "[]"]
    kidless_store_installed
  by (simp add: kidless_state_def)

text \<open>
  C4: a refresh that fails because the provider cannot be reached is to end in
  InvalidKeyError. \<^verbatim>\<open>get_keys\<close> handles KeyError and the HTTPError of the HTTP library
  only; the ConnectionError that the library raises for a host it cannot reach passes
  through \<^verbatim>\<open>get_keys\<close>, \<^verbatim>\<open>get_key\<close> and \<^verbatim>\<open>authenticate_token\<close> unchanged.
\<close>

theorem authenticate_token_unreachable:
  assumes "OIDC_ENABLED (auth env)"
    and "get_unverified_header env ts = Inr h"
    and "py_iter (jwks_keys st) = Inr ks"
    and "filter_kid ks (dict_get h ''kid'') = Inr []"
    and "http_get env (JStr (OIDC_CONF_WELL_KNOWN_URL (auth env))) = Inl Req_ConnectionError"
  shows "authenticate_token env ts st =
           (Inl (Requests Req_ConnectionError),
            st\<lparr>trace := trace st @ [EvLookup, EvRefresh, EvGet (JStr (OIDC_CONF_WELL_KNOWN_URL (auth env)))]\<rparr>)
         \<and> fst (authenticate_token env ts st) \<noteq> Inl InvalidKeyError"
proof -
  have "get_key env (dict_get h ''kid'') st =
          (Inl (Requests Req_ConnectionError),
           st\<lparr>trace := trace st @ [EvLookup, EvRefresh, EvGet (JStr (OIDC_CONF_WELL_KNOWN_URL (auth env)))]\<rparr>)"
    unfolding get_key_miss_unfold[OF assms(3,4)] get_keys_unreachable[OF assms(5)] by simp
  then show ?thesis
    using assms(1,2) by (simp add: authenticate_token_def prog_simps)
qed

theorem authenticate_token_unreachable_witness:
  "authenticate_token unreachable_env ''jwt-k1'' fresh_state =
     (Inl (Requests Req_ConnectionError),
      fresh_state\<lparr>trace := [EvLookup, EvRefresh, EvGet (JStr idp_well_known)]\<rparr>)"
  using authenticate_token_unreachable[where env = unreachable_env and ts = "''jwt-k1''"
      and st = fresh_state and h = "[(''alg'', JStr ''RS256''), (''kid'', JStr ''k1'')]" and ks = "[]"]
  by (simp add: example_defs dict_get_def)

section \<open>The permission check\<close>

text \<open>
  C5: when the requested scopes include \<^verbatim>\<open>always_permitted\<close>, \<^verbatim>\<open>validate_token\<close> returns
  the token, whatever the settings, the claims and the rule table are; the state is left
  as it was, so neither the cache nor the provider is asked.
\<close>

theorem validate_token_always_permitted:
  "''always_permitted'' \<in> set sc \<Longrightarrow>
   validate_token env tok (Some sc) request st = (Inr tok, st)"
  by (simp add: validate_token_def prog_simps)

theorem validate_token_always_permitted_witness:
  "''always_permitted'' \<in> set [''always_permitted'']
   \<and> validate_token example_env token_alice (Some [''always_permitted'']) (''GET'', ''/devices'')
       example_state = (Inr token_alice, example_state)"
  using validate_token_always_permitted[of "[''always_permitted'']" example_env token_alice
      "(''GET'', ''/devices'')" example_state]
  by simp

text \<open>
  C6, as stated, at a concrete input: permissions are not disabled and the rule table is
  empty, but the request carries the scope \<^verbatim>\<open>always_permitted\<close>, which is tested before
  the rule table, and the request is allowed.
\<close>

theorem validate_token_empty_rules_counterexample:
  "\<not> PERMISSIONS_DISABLED (auth example_env)
   \<and> \<not> truthy (PERMISSIONS (auth example_env))
   \<and> validate_token example_env token_alice (Some [''always_permitted'']) (''GET'', ''/devices'')
       example_state = (Inr token_alice, example_state)"
  by (intro conjI; simp add: validate_token_def prog_simps example_env_def example_auth_def)

text \<open>
  C6, amended: when permissions are not disabled, the rule table is empty or unset, and
  the requested scopes do not include \<^verbatim>\<open>always_permitted\<close>, \<^verbatim>\<open>validate_token\<close> refuses the
  request with InvalidAudienceError, without resolving the identity.
\<close>

theorem validate_token_empty_rules_denies:
  assumes "\<not> PERMISSIONS_DISABLED (auth env)"
    and "\<not> truthy (PERMISSIONS (auth env))"
    and "\<forall>sc. scopes = Some sc \<longrightarrow> ''always_permitted'' \<notin> set sc"
  shows "validate_token env tok scopes request st = (Inl InvalidAudienceError, st)"
  using assms by (cases scopes) (simp_all add: validate_token_def prog_simps)

theorem validate_token_empty_rules_denies_witness:
  "validate_token example_env token_alice (Some [''devices:read'']) (''GET'', ''/devices'') example_state
     = (Inl InvalidAudienceError, example_state)
   \<and> validate_token example_env token_alice None (''GET'', ''/devices'') example_state
     = (Inl InvalidAudienceError, example_state)"
  using validate_token_empty_rules_denies[of example_env "Some [''devices:read'']" token_alice
      "(''GET'', ''/devices'')" example_state]
    validate_token_empty_rules_denies[of example_env None token_alice
      "(''GET'', ''/devices'')" example_state]
  by (simp add: example_env_def example_auth_def)

section \<open>The identity cache\<close>

text \<open>
  C7: a resolution that misses the cache, gets the user info from the provider and writes
  the cache asks for the expiry \<open>min e (now + 3600)\<close>, where \<open>e\<close> is the token's \<^verbatim>\<open>exp\<close>
  claim: that is \<open>e\<close> when \<open>e\<close> is not after \<open>now + 3600\<close>, and \<open>now + 3600\<close> when it is not
  before. The hash expires at this instant when it had no expiry or a later one, and keeps
  a stored expiry that is not later.
\<close>

theorem userinfo_cache_expiry:
  assumes "OIDC_ENABLED (auth env)"
    and "\<not> redis_session_fails env" "\<not> hsetnx_fails env" "\<not> expireat_fails env"
    and "decoded_token tok = JObj c" "map_of c ''sub'' = Some sub" "redis_field sub = Some f"
      "map_of c ''exp'' = Some ex" "py_int ex = Inr e"
    and "hget_fails env \<or> map_of (userinfo_cache (purge (now env) st)) f = None
      \<or> map_of (userinfo_cache (purge (now env) st)) f = Some []"
    and "http_get env (JStr (OIDC_CONF_WELL_KNOWN_URL (auth env))) = Inr m"
      "raise_for_status m = Inr ()" "json_loads env (resp_text m) = Some mj"
      "getitem mj ''userinfo_endpoint'' = Inr ep"
    and "http_post env ep (token_string tok) = Inr r" "raise_for_status r = Inr ()"
      "json_loads env (resp_text r) = Some ui"
  shows "fst (get_oauth_userinfo env tok st) = Inr ui
    \<and> (e \<le> now env + 3600 \<longrightarrow> min e (now env + 3600) = e)
    \<and> (now env + 3600 \<le> e \<longrightarrow> min e (now env + 3600) = now env + 3600)
    \<and> (cache_expiry (purge (now env) st) = None \<longrightarrow>
         cache_expiry (snd (get_oauth_userinfo env tok st)) = Some (min e (now env + 3600)))
    \<and> (\<forall>stored. cache_expiry (purge (now env) st) = Some stored \<and> min e (now env + 3600) < stored \<longrightarrow>
         cache_expiry (snd (get_oauth_userinfo env tok st)) = Some (min e (now env + 3600)))
    \<and> (\<forall>stored. cache_expiry (purge (now env) st) = Some stored \<and> stored \<le> min e (now env + 3600) \<longrightarrow>
         cache_expiry (snd (get_oauth_userinfo env tok st)) = Some stored)"
proof -
  have r: "fst (get_oauth_userinfo env tok st) = Inr ui \<and>
         cache_expiry (snd (get_oauth_userinfo env tok st)) =
           Some (case cache_expiry (purge (now env) st) of
                   None \<Rightarrow> min e (now env + 3600)
                 | Some stored \<Rightarrow> min stored (min e (now env + 3600)))"
    using assms by (rule resolve_remote)
  show ?thesis
  proof (cases "cache_expiry (purge (now env) st)")
    case None
    then show ?thesis using r by simp
  next
    case (Some stored)
    then show ?thesis using r by auto
  qed
qed

theorem userinfo_cache_expiry_witness:
  "cache_expiry (snd (get_oauth_userinfo example_env token_alice example_state)) = Some 4600
   \<and> cache_expiry (snd (get_oauth_userinfo example_env token_alice cached_state)) = Some 2000"
proof -
  let ?c = "[(''sub'', JStr ''alice''), (''aud'', JStr ''cnaas''), (''exp'', JInt 5000)]"
  let ?m = "\<lparr>status_code = 200, resp_text = ''discovery''\<rparr>"
  let ?mj = "JObj [(''jwks_uri'', JStr ''https://idp.example/jwks''),
                   (''userinfo_endpoint'', JStr ''https://idp.example/userinfo'')]"
  let ?r = "\<lparr>status_code = 200, resp_text = ''userinfo''\<rparr>"
  have a: "cache_expiry (snd (get_oauth_userinfo example_env token_alice example_state)) = Some 4600"
    using userinfo_cache_expiry[where env = example_env and tok = token_alice
        and st = example_state and c = ?c and sub = "JStr ''alice''" and f = "''alice''" and ex = "JInt 5000"
        and e = 5000 and m = ?m and mj = ?mj and ep = "JStr ''https://idp.example/userinfo''"
        and r = ?r and ui = userinfo_alice]
    by (simp add: example_defs purge_def raise_for_status_def)
  have b: "cache_expiry (snd (get_oauth_userinfo example_env token_alice cached_state)) = Some 2000"
    using userinfo_cache_expiry[where env = example_env and tok = token_alice
        and st = cached_state and c = ?c and sub = "JStr ''alice''" and f = "''alice''" and ex = "JInt 5000"
        and e = 5000 and m = ?m and mj = ?mj and ep = "JStr ''https://idp.example/userinfo''"
        and r = ?r and ui = userinfo_alice]
    by (simp add: example_defs purge_def raise_for_status_def)
  show ?thesis using a b by simp
qed

section \<open>Error kinds\<close>

text \<open>
  The exact class of a refusal: \<^verbatim>\<open>authenticate_token\<close> never raises an object whose class
  is InvalidAudienceError itself, and every exception of \<^verbatim>\<open>validate_token\<close> of another
  class is an exception of the identity resolution.
\<close>

lemma authenticate_token_not_InvalidAudienceError:
  "fst (authenticate_token env ts st) \<noteq> Inl InvalidAudienceError"
  using no_aud_authenticate_token[of env ts] by (simp add: no_aud_def)

lemma validate_token_other_exceptions:
  assumes "fst (validate_token env tok scopes request s) = Inl x" and "x \<noteq> InvalidAudienceError"
  shows "fst (get_oauth_userinfo env tok s) = Inl x"
proof -
  obtain r s' where g: "get_oauth_userinfo env tok s = (r, s')"
    by (cases "get_oauth_userinfo env tok s")
  show ?thesis
    using assms unfolding g
    by (cases r) (auto simp: validate_token_def prog_simps Let_def g split: if_splits)
qed



section \<open>Refreshing the key set\<close>

text \<open>
  C9: when \<^verbatim>\<open>get_keys\<close> raises, whatever the exception (a fetch of the discovery document
  or of the key set that fails, an answer that is no JSON or lacks \<^verbatim>\<open>jwks_uri\<close> or
  \<^verbatim>\<open>keys\<close>), the store holds the key set it held before the call.
\<close>

theorem get_keys_failure_keeps_store:
  "get_keys env st = (Inl e, st') \<Longrightarrow> jwks_keys st' = jwks_keys st"
  unfolding get_keys_def
  by (auto simp: prog_simps split: sum.splits prod.splits if_splits dest!: get_keys_body_keeps)

theorem get_keys_failure_keeps_store_witness:
  "fst (get_keys unreachable_env example_state) = Inl (Requests Req_ConnectionError)
   \<and> jwks_keys (snd (get_keys unreachable_env example_state)) = JArr [key_k1]"
proof -
  have u: "http_get unreachable_env (JStr (OIDC_CONF_WELL_KNOWN_URL (auth unreachable_env)))
             = Inl Req_ConnectionError"
    by (simp add: unreachable_env_def)
  have g: "get_keys unreachable_env example_state =
             (Inl (Requests Req_ConnectionError),
              example_state\<lparr>trace := trace example_state @
                [EvRefresh, EvGet (JStr (OIDC_CONF_WELL_KNOWN_URL (auth unreachable_env)))]\<rparr>)"
    using u by (rule get_keys_unreachable)
  have "jwks_keys (example_state\<lparr>trace := trace example_state @
                [EvRefresh, EvGet (JStr (OIDC_CONF_WELL_KNOWN_URL (auth unreachable_env)))]\<rparr>)
          = jwks_keys example_state"
    using g by (rule get_keys_failure_keeps_store)
  then show ?thesis
    unfolding g by (simp add: example_state_def)
qed

section \<open>The built-in identities\<close>

text \<open>
  C10: with \<^verbatim>\<open>JWT_ENABLED\<close> unset \<^verbatim>\<open>get_jwt_identity\<close> returns \<^verbatim>\<open>"admin"\<close>, with
  \<^verbatim>\<open>OIDC_ENABLED\<close> unset \<^verbatim>\<open>get_oauth_identity\<close> returns \<^verbatim>\<open>"Admin"\<close>, and the two strings differ.
\<close>

theorem bypass_identities_differ:
  "\<not> JWT_ENABLED (api env) \<Longrightarrow> \<not> OIDC_ENABLED (auth env') \<Longrightarrow>
   get_jwt_identity env = JStr ''admin''
   \<and> get_oauth_identity env' st = (Inr (JStr ''Admin''), st)
   \<and> fst (get_oauth_identity env' st) \<noteq> Inr (get_jwt_identity env)"
  by (simp add: get_jwt_identity_def get_oauth_identity_def prog_simps)

theorem bypass_identities_differ_witness:
  "get_jwt_identity disabled_env = JStr ''admin''
   \<and> get_oauth_identity disabled_env example_state = (Inr (JStr ''Admin''), example_state)
   \<and> fst (get_oauth_identity disabled_env example_state) \<noteq> Inr (get_jwt_identity disabled_env)"
  using bypass_identities_differ[of disabled_env disabled_env example_state]
  by (simp add: disabled_env_def example_env_def example_auth_def)

end
